theory Spec2Isabelle
  imports Main "HOL-Library.Sublist"
begin

section \<open>The global rehydration coordinator (global_rehydrate.py)\<close>

text \<open>
  A shallow embedding of the class \<open>GlobalRehydrationSystem\<close>. The object's three
  dictionaries (\<open>config\<close>, \<open>state\<close>, \<open>manifest\<close>) are records whose fields are
  optional wherever the source reads the key with \<open>.get\<close> or \<open>setdefault\<close>: \<open>None\<close>
  stands for a key that is absent (for \<open>last_rehydration\<close> also for JSON \<open>null\<close>).
  What a call reads from outside the program (the host's system name, the file system,
  the child process, the clock) is the record \<open>host\<close>; what a call writes outside the
  program (the state file, the calls of \<open>subprocess.run\<close>) is the record \<open>world\<close>.

  Console output: the \<open>print\<close> calls after the script has been invoked (the lines with
  the marks U+2713 and U+2717, and the line that echoes the script's standard error) may
  raise, as they do on a standard output whose encoding lacks the character; the host says
  which texts it prints. The \<open>print\<close> calls before that write ASCII literals and the
  caller's own strings (environment, command line) and are taken to succeed.

  Not modelled: a failing write of the state file (\<open>_save_state\<close> is taken to succeed),
  and signals that are not instances of Python's \<open>Exception\<close> (\<open>KeyboardInterrupt\<close>,
  \<open>SystemExit\<close>), which end the process.
\<close>

subsection \<open>Data\<close>

text \<open>The history record built in \<open>rehydrate\<close>; the last three keys are set on some paths only.\<close>

record record_dict =
  timestamp :: string
  environment :: string
  platform :: string
  verify_integrity :: bool
  status :: string
  returncode :: "int option"
  record_output :: "string option"
  error :: "string option"

record state_dict =
  last_rehydration :: "string option"
  rehydration_history :: "record_dict list option"
  active_environments :: "string list option"
  system_status :: "string option"

record config_dict =
  default_environment :: "string option"
  verify_integrity_by_default :: "bool option"

text \<open>An entry of the manifest's \<open>scripts\<close> list, with its keys \<open>platform\<close> and \<open>path\<close>.\<close>

record script_dict =
  script_platform :: string
  script_path :: string

record manifest_dict =
  scripts :: "script_dict list option"

text \<open>The fields of the object that the operations use.\<close>

record grs =
  config :: config_dict
  state :: state_dict
  manifest :: manifest_dict

text \<open>What the child process leaves behind: its exit code and the bytes it wrote.\<close>

record raw_process =
  raw_returncode :: int
  raw_stdout :: string
  raw_stderr :: string

text \<open>What \<open>subprocess.run(cmd, capture_output=True, text=True)\<close> returns.\<close>

record completed_process =
  cp_returncode :: int
  cp_stdout :: string
  cp_stderr :: string

text \<open>The dictionary returned by \<open>_execute_platform_script\<close>.\<close>

record exec_result =
  exec_success :: bool
  exec_returncode :: int
  exec_stdout :: string
  exec_stderr :: string

text \<open>
  The dictionary returned by \<open>rehydrate\<close>: \<open>skipped\<close> is present on the short-circuit
  path only, \<open>details\<close> on the other paths only.
\<close>

record rehydrate_result =
  success :: bool
  message :: string
  skipped :: "bool option"
  details :: "record_dict option"

text \<open>
  The exceptions that leave \<open>rehydrate\<close>, with their messages: the \<open>ValueError\<close> of a
  missing script entry, and the exception of a \<open>print\<close> in the \<open>except\<close> block
  (\<open>UnicodeEncodeError\<close> on a console that cannot encode the line).
\<close>

datatype exn = ValueError string | ConsoleError string

text \<open>
  The surroundings of one call. \<open>platform_system\<close> is the value of \<open>platform.system()\<close>;
  \<open>path_of p\<close> is \<open>str(self.base_path / p)\<close>; \<open>path_exists\<close> is \<open>Path.exists\<close> on such a
  path. \<open>spawn cmd\<close> is the child process run to its end, or (\<open>Inl\<close>) \<open>str(e)\<close> of the
  exception raised when it cannot be started; \<open>decode\<close> is the decoding of captured bytes in
  the locale's encoding, or (\<open>Inl\<close>) the message of its \<open>UnicodeDecodeError\<close>.
  \<open>print_raises t\<close> is \<open>None\<close> when \<open>print(t)\<close> writes the text, and \<open>str(e)\<close> of the
  exception when it raises. \<open>now_start\<close> and \<open>now_end\<close> are the two readings of
  \<open>datetime.now(timezone.utc).isoformat()\<close>.
\<close>

record host =
  platform_system :: string
  path_of :: "string \<Rightarrow> string"
  path_exists :: "string \<Rightarrow> bool"
  spawn :: "string list \<Rightarrow> string + raw_process"
  decode :: "string \<Rightarrow> string + string"
  print_raises :: "string \<Rightarrow> string option"
  now_start :: string
  now_end :: string

text \<open>
  The effects of the program outside its own memory: the contents of \<open>global_state.json\<close>
  (\<open>None\<close> while the file does not exist) and the commands given to \<open>subprocess.run\<close>,
  oldest first.
\<close>

record world =
  persisted :: "state_dict option"
  subprocess_calls :: "string list list"

subsection \<open>Dictionary reads with defaults\<close>

definition get_history_list :: "state_dict \<Rightarrow> record_dict list" where
  "get_history_list st = (case rehydration_history st of None \<Rightarrow> [] | Some h \<Rightarrow> h)"

definition get_active_list :: "state_dict \<Rightarrow> string list" where
  "get_active_list st = (case active_environments st of None \<Rightarrow> [] | Some a \<Rightarrow> a)"

definition get_scripts :: "manifest_dict \<Rightarrow> script_dict list" where
  "get_scripts m = (case scripts m of None \<Rightarrow> [] | Some s \<Rightarrow> s)"

text \<open>\<open>self.state.setdefault("rehydration_history", []).append(r)\<close>\<close>

definition append_history :: "record_dict \<Rightarrow> state_dict \<Rightarrow> state_dict" where
  "append_history r st = st\<lparr>rehydration_history := Some (get_history_list st @ [r])\<rparr>"

subsection \<open>State store\<close>

text \<open>The defaults of \<open>_load_state\<close>, which \<open>reset\<close> writes again.\<close>

definition default_state :: state_dict where
  "default_state = \<lparr>last_rehydration = None, rehydration_history = Some [],
     active_environments = Some [], system_status = Some ''uninitialized''\<rparr>"

definition load_state :: "world \<Rightarrow> state_dict" where
  "load_state w = (case persisted w of Some st \<Rightarrow> st | None \<Rightarrow> default_state)"

definition save_state :: "state_dict \<Rightarrow> world \<Rightarrow> world" where
  "save_state st w = w\<lparr>persisted := Some st\<rparr>"

subsection \<open>Platform resolver and manifest lookup\<close>

text \<open>
  \<open>str.lower\<close> on the ASCII letters. A character outside ASCII is left as it is; Python
  maps none of them to a letter of \<open>windows\<close>, \<open>linux\<close> or \<open>darwin\<close>, so the comparisons
  of \<open>detect_platform\<close> come out the same. The argument of \<open>detect_platform\<close> is the
  value of \<open>platform.system()\<close>.
\<close>

definition ascii_uppercase :: string where
  "ascii_uppercase = ''ABCDEFGHIJKLMNOPQRSTUVWXYZ''"

definition ascii_lowercase :: string where
  "ascii_lowercase = ''abcdefghijklmnopqrstuvwxyz''"

definition lower_char :: "char \<Rightarrow> char" where
  "lower_char c =
     (case map_of (zip ascii_uppercase ascii_lowercase) c of Some d \<Rightarrow> d | None \<Rightarrow> c)"

definition lower :: "string \<Rightarrow> string" where
  "lower s = map lower_char s"

definition detect_platform :: "string \<Rightarrow> string" where
  "detect_platform system_name =
     (let system = lower system_name in
      if system = ''windows'' then ''windows''
      else if system \<in> set [''linux'', ''darwin''] then ''linux''
      else ''linux'')"

text \<open>The loop of \<open>_get_script_for_platform\<close> over the \<open>scripts\<close> list.\<close>

fun find_script :: "script_dict list \<Rightarrow> string \<Rightarrow> script_dict option" where
  "find_script [] platform_name = None"
| "find_script (script # rest) platform_name =
     (if script_platform script = platform_name then Some script
      else find_script rest platform_name)"

definition get_script_for_platform :: "manifest_dict \<Rightarrow> string \<Rightarrow> script_dict option" where
  "get_script_for_platform m platform_name = find_script (get_scripts m) platform_name"

subsection \<open>Script invoker\<close>

text \<open>
  Text mode of \<open>subprocess\<close>: the captured bytes are decoded and the line endings CR LF
  and CR become LF.
\<close>

definition CR :: char where
  "CR = CHR 0x0D"

definition LF :: char where
  "LF = CHR 0x0A"

fun universal_newlines :: "string \<Rightarrow> string" where
  "universal_newlines [] = []"
| "universal_newlines [c] = [if c = CR then LF else c]"
| "universal_newlines (c # d # ds) =
     (if c = CR \<and> d = LF then LF # universal_newlines ds
      else if c = CR then LF # universal_newlines (d # ds)
      else c # universal_newlines (d # ds))"

text \<open>
  \<open>subprocess.run(cmd, capture_output=True, text=True)\<close>: the process is run, then its
  standard output and its standard error are decoded and translated, in this order.
\<close>

definition subprocess_run :: "host \<Rightarrow> string list \<Rightarrow> string + completed_process" where
  "subprocess_run h cmd =
     (case spawn h cmd of
        Inl e \<Rightarrow> Inl e
      | Inr raw \<Rightarrow>
          (case decode h (raw_stdout raw) of
             Inl e \<Rightarrow> Inl e
           | Inr out \<Rightarrow>
               (case decode h (raw_stderr raw) of
                  Inl e \<Rightarrow> Inl e
                | Inr err \<Rightarrow>
                    Inr \<lparr>cp_returncode = raw_returncode raw,
                          cp_stdout = universal_newlines out,
                          cp_stderr = universal_newlines err\<rparr>)))"

definition build_command :: "script_dict \<Rightarrow> string \<Rightarrow> string \<Rightarrow> bool \<Rightarrow> string list" where
  "build_command script_info path env verify =
     (if script_platform script_info = ''windows''
      then [''powershell'', ''-ExecutionPolicy'', ''Bypass'', ''-File'', path,
            ''-Environment'', env] @ (if verify then [''-VerifyIntegrity''] else [])
      else [''bash'', path, ''--environment='' @ env] @ (if verify then [''--verify''] else []))"

definition execute_platform_script ::
  "host \<Rightarrow> script_dict \<Rightarrow> string \<Rightarrow> bool \<Rightarrow> world \<Rightarrow> (string + exec_result) \<times> world" where
  "execute_platform_script h script_info env verify w =
     (let path = path_of h (script_path script_info) in
      if \<not> path_exists h path then (Inl (''Script not found: '' @ path), w)
      else
        let cmd = build_command script_info path env verify;
            w1 = w\<lparr>subprocess_calls := subprocess_calls w @ [cmd]\<rparr>
        in case subprocess_run h cmd of
             Inl e \<Rightarrow> (Inl e, w1)
           | Inr cp \<Rightarrow>
               (Inr \<lparr>exec_success = (cp_returncode cp = 0),
                     exec_returncode = cp_returncode cp,
                     exec_stdout = cp_stdout cp,
                     exec_stderr = cp_stderr cp\<rparr>, w1))"

subsection \<open>Rehydration coordinator\<close>

definition resolve_environment :: "config_dict \<Rightarrow> string option \<Rightarrow> string" where
  "resolve_environment c env_arg =
     (case env_arg of
        Some e \<Rightarrow> e
      | None \<Rightarrow> (case default_environment c of Some e \<Rightarrow> e | None \<Rightarrow> ''development''))"

definition resolve_verify :: "config_dict \<Rightarrow> bool option \<Rightarrow> bool" where
  "resolve_verify c verify_arg =
     (case verify_arg of
        Some v \<Rightarrow> v
      | None \<Rightarrow> (case verify_integrity_by_default c of Some v \<Rightarrow> v | None \<Rightarrow> True))"

text \<open>The test "already hydrated" at the head of \<open>rehydrate\<close>.\<close>

definition already_hydrated :: "state_dict \<Rightarrow> string \<Rightarrow> bool \<Rightarrow> bool" where
  "already_hydrated st env force =
     (if \<not> force \<and> system_status st = Some ''hydrated''
      then env \<in> set (get_active_list st) else False)"

text \<open>The record at the start of an attempt.\<close>

definition start_record :: "host \<Rightarrow> string \<Rightarrow> string \<Rightarrow> bool \<Rightarrow> record_dict" where
  "start_record h env current_platform verify =
     \<lparr>timestamp = now_start h, environment = env, platform = current_platform,
      verify_integrity = verify, status = ''in_progress'', returncode = None,
      record_output = None, error = None\<rparr>"

text \<open>The record of a script that has run, as the three assignments after the call leave it.\<close>

definition ran_record :: "host \<Rightarrow> string \<Rightarrow> bool \<Rightarrow> exec_result \<Rightarrow> record_dict" where
  "ran_record h env verify result =
     (start_record h env (detect_platform (platform_system h)) verify)
       \<lparr>status := (if exec_success result then ''success'' else ''failed''),
        returncode := Some (exec_returncode result),
        record_output := Some (exec_stdout result)\<rparr>"

text \<open>The update of the global state after a script that exited with code 0.\<close>

definition mark_hydrated :: "host \<Rightarrow> string \<Rightarrow> state_dict \<Rightarrow> state_dict" where
  "mark_hydrated h env st =
     st\<lparr>last_rehydration := Some (now_end h),
        system_status := Some ''hydrated'',
        active_environments :=
          (if env \<notin> set (get_active_list st) then Some (get_active_list st @ [env])
           else active_environments st)\<rparr>"

text \<open>The lines printed after the invocation; the marks are U+2713 and U+2717 in UTF-8.\<close>

definition check_mark :: string where
  "check_mark = [CHR 0xE2, CHR 0x9C, CHR 0x93]"

definition ballot_x :: string where
  "ballot_x = [CHR 0xE2, CHR 0x9C, CHR 0x97]"

definition success_line :: string where
  "success_line = LF # check_mark @ '' Global rehydration completed successfully!''"

definition failure_line :: string where
  "failure_line = LF # ballot_x @ '' Global rehydration failed!''"

definition stderr_line :: "string \<Rightarrow> string" where
  "stderr_line err = ''Error: '' @ err"

definition error_line :: "string \<Rightarrow> string" where
  "error_line e = LF # ballot_x @ '' Error during rehydration: '' @ e"

text \<open>
  The \<open>except Exception as e\<close> block, entered with the record and the object as they are
  when the exception is raised. Its \<open>print\<close> comes after the state is saved and is not
  guarded: an exception of it leaves \<open>rehydrate\<close>.
\<close>

definition handle_exception ::
  "host \<Rightarrow> string \<Rightarrow> record_dict \<Rightarrow> grs \<Rightarrow> world
     \<Rightarrow> (exn + rehydrate_result) \<times> grs \<times> world" where
  "handle_exception h e rehydration_record g w =
     (let r = rehydration_record\<lparr>status := ''error'', error := Some e\<rparr>;
          st2 = append_history r (state g)
      in case print_raises h (error_line e) of
           Some e2 \<Rightarrow> (Inl (ConsoleError e2), g\<lparr>state := st2\<rparr>, save_state st2 w)
         | None \<Rightarrow>
             (Inr \<lparr>success = False, message = ''Error: '' @ e, skipped = None,
                   details = Some r\<rparr>,
              g\<lparr>state := st2\<rparr>, save_state st2 w))"

text \<open>The end of the \<open>try\<close> block: the record is appended, the state saved, the result returned.\<close>

definition complete_attempt ::
  "exec_result \<Rightarrow> record_dict \<Rightarrow> grs \<Rightarrow> world \<Rightarrow> (exn + rehydrate_result) \<times> grs \<times> world" where
  "complete_attempt result r g w =
     (let st2 = append_history r (state g)
      in (Inr \<lparr>success = exec_success result,
               message = (if exec_success result then ''Rehydration completed''
                          else ''Rehydration failed''),
               skipped = None, details = Some r\<rparr>,
          g\<lparr>state := st2\<rparr>, save_state st2 w))"

definition rehydrate ::
  "host \<Rightarrow> string option \<Rightarrow> bool option \<Rightarrow> bool \<Rightarrow> grs \<times> world
     \<Rightarrow> (exn + rehydrate_result) \<times> grs \<times> world" where
  "rehydrate h env_arg verify_arg force gw =
     (let g = fst gw; w = snd gw;
          env = resolve_environment (config g) env_arg;
          verify = resolve_verify (config g) verify_arg
      in
      if already_hydrated (state g) env force
      then (Inr \<lparr>success = True, message = ''Already hydrated'', skipped = Some True,
                 details = None\<rparr>, g, w)
      else
        let current_platform = detect_platform (platform_system h) in
        case get_script_for_platform (manifest g) current_platform of
          None \<Rightarrow> (Inl (ValueError (''No script found for platform: '' @ current_platform)), g, w)
        | Some script_info \<Rightarrow>
            let rehydration_record = start_record h env current_platform verify in
            (case execute_platform_script h script_info env verify w of
              (Inl e, w1) \<Rightarrow> handle_exception h e rehydration_record g w1
            | (Inr result, w1) \<Rightarrow>
                let r = rehydration_record
                      \<lparr>status := (if exec_success result then ''success'' else ''failed''),
                       returncode := Some (exec_returncode result),
                       record_output := Some (exec_stdout result)\<rparr>
                in
                if exec_success result then
                  let g1 = g\<lparr>state := mark_hydrated h env (state g)\<rparr> in
                  (case print_raises h success_line of
                     Some e \<Rightarrow> handle_exception h e r g1 w1
                   | None \<Rightarrow> complete_attempt result r g1 w1)
                else
                  (case print_raises h failure_line of
                     Some e \<Rightarrow> handle_exception h e r g w1
                   | None \<Rightarrow>
                       (case print_raises h (stderr_line (exec_stderr result)) of
                          Some e \<Rightarrow> handle_exception h e r g w1
                        | None \<Rightarrow> complete_attempt result r g w1))))"

text \<open>
  \<open>get_history(limit)\<close>: the slice \<open>history[-limit:]\<close> starts at \<open>-limit\<close>, counted from
  the end when negative and clipped to the list. \<open>None\<close> is Python's \<open>None\<close>.
\<close>

definition slice_from :: "'a list \<Rightarrow> int \<Rightarrow> 'a list" where
  "slice_from xs i =
     (let n = int (length xs);
          j = (if i < 0 then max (i + n) 0 else min i n)
      in drop (nat j) xs)"

definition get_history :: "grs \<Rightarrow> int option \<Rightarrow> record_dict list" where
  "get_history g limit =
     (let history = get_history_list (state g) in
      case limit of
        None \<Rightarrow> history
      | Some l \<Rightarrow> (if l \<noteq> 0 then slice_from history (- l) else history))"

text \<open>The call \<open>get_history()\<close>, which leaves \<open>limit\<close> to its default 10.\<close>

definition get_history_no_limit :: "grs \<Rightarrow> record_dict list" where
  "get_history_no_limit g = get_history g (Some 10)"

definition reset :: "grs \<times> world \<Rightarrow> grs \<times> world" where
  "reset gw = ((fst gw)\<lparr>state := default_state\<rparr>, save_state default_state (snd gw))"

subsection \<open>Sequences of operations\<close>

datatype operation = Rehydrate host "string option" "bool option" bool | Reset

fun step :: "operation \<Rightarrow> grs \<times> world \<Rightarrow> grs \<times> world" where
  "step (Rehydrate h env_arg verify_arg force) gw = snd (rehydrate h env_arg verify_arg force gw)"
| "step Reset gw = reset gw"

fun run :: "operation list \<Rightarrow> grs \<times> world \<Rightarrow> grs \<times> world" where
  "run [] gw = gw"
| "run (opn # ops) gw = run ops (step opn gw)"

text \<open>
  What the caller sees of one operation: a rehydration that was skipped, one that raised
  the configuration error, an attempt with the status of its record (the record returned,
  or the last of the history when the call raised after appending it), a reset.
\<close>

datatype outcome = Skipped | ConfigError | Attempt string | WasReset

fun outcome_of :: "operation \<Rightarrow> grs \<times> world \<Rightarrow> outcome" where
  "outcome_of (Rehydrate h env_arg verify_arg force) gw =
     (case fst (rehydrate h env_arg verify_arg force gw) of
        Inl (ValueError m) \<Rightarrow> ConfigError
      | Inl (ConsoleError m) \<Rightarrow>
          Attempt (status (last (get_history_list
            (state (fst (snd (rehydrate h env_arg verify_arg force gw)))))))
      | Inr res \<Rightarrow> (case details res of None \<Rightarrow> Skipped | Some r \<Rightarrow> Attempt (status r)))"
| "outcome_of Reset gw = WasReset"

fun outcomes :: "operation list \<Rightarrow> grs \<times> world \<Rightarrow> outcome list" where
  "outcomes [] gw = []"
| "outcomes (opn # ops) gw = outcome_of opn gw # outcomes ops (step opn gw)"

text \<open>The outcomes after the most recent reset (all of them when there was none).\<close>

definition since_last_reset :: "outcome list \<Rightarrow> outcome list" where
  "since_last_reset os = rev (takeWhile (\<lambda>x. x \<noteq> WasReset) (rev os))"

definition success_since_reset :: "outcome list \<Rightarrow> bool" where
  "success_since_reset os = (Attempt ''success'' \<in> set (since_last_reset os))"

text \<open>The operation prints its line of success when it comes to it.\<close>

fun prints_success_line :: "operation \<Rightarrow> bool" where
  "prints_success_line (Rehydrate h env_arg verify_arg force) =
     (print_raises h success_line = None)"
| "prints_success_line Reset = True"

text \<open>A call reaches the script invocation when it is not skipped and a script is found.\<close>

definition reaches_invocation :: "host \<Rightarrow> string option \<Rightarrow> bool \<Rightarrow> grs \<Rightarrow> bool" where
  "reaches_invocation h env_arg force g =
     (\<not> already_hydrated (state g) (resolve_environment (config g) env_arg) force \<and>
      get_script_for_platform (manifest g) (detect_platform (platform_system h)) \<noteq> None)"

definition terminal_status :: "string \<Rightarrow> bool" where
  "terminal_status s = (s \<in> set [''success'', ''failed'', ''error''])"

definition no_in_progress :: "record_dict list \<Rightarrow> bool" where
  "no_in_progress rs = (''in_progress'' \<notin> set (map status rs))"

text \<open>The state file, when it exists, holds no record that is still in progress.\<close>

definition persisted_clean :: "world \<Rightarrow> bool" where
  "persisted_clean w =
     (case persisted w of None \<Rightarrow> True | Some st \<Rightarrow> no_in_progress (get_history_list st))"

text \<open>The texts that a history record holds, key by key.\<close>

definition record_texts :: "record_dict \<Rightarrow> string list" where
  "record_texts r =
     [timestamp r, environment r, platform r, status r]
     @ (case record_output r of None \<Rightarrow> [] | Some t \<Rightarrow> [t])
     @ (case error r of None \<Rightarrow> [] | Some t \<Rightarrow> [t])"

subsection \<open>Concrete inputs\<close>

definition sample_config :: config_dict where
  "sample_config = \<lparr>default_environment = Some ''development'',
     verify_integrity_by_default = Some True\<rparr>"

definition sample_manifest :: manifest_dict where
  "sample_manifest = \<lparr>scripts = Some
     [\<lparr>script_platform = ''windows'', script_path = ''rehydrate.ps1''\<rparr>,
      \<lparr>script_platform = ''linux'', script_path = ''rehydrate.sh''\<rparr>]\<rparr>"

definition windows_only_manifest :: manifest_dict where
  "windows_only_manifest = \<lparr>scripts = Some
     [\<lparr>script_platform = ''windows'', script_path = ''rehydrate.ps1''\<rparr>]\<rparr>"

definition sample_grs :: "manifest_dict \<Rightarrow> state_dict \<Rightarrow> grs" where
  "sample_grs m st = \<lparr>config = sample_config, state = st, manifest = m\<rparr>"

definition fresh_world :: world where
  "fresh_world = \<lparr>persisted = None, subprocess_calls = []\<rparr>"

text \<open>
  A host with the given system name, on which every script path exists or none does, on
  which every child process has the given outcome, whose locale decodes every byte string
  to itself, and whose console prints every text.
\<close>

definition sample_host :: "string \<Rightarrow> bool \<Rightarrow> string + raw_process \<Rightarrow> host" where
  "sample_host system_name present outcome =
     \<lparr>platform_system = system_name, path_of = (\<lambda>p. ''/opt/grs/'' @ p),
      path_exists = (\<lambda>p. present), spawn = (\<lambda>cmd. outcome), decode = Inr,
      print_raises = (\<lambda>t. None),
      now_start = ''2024-05-01T10:00:00+00:00'', now_end = ''2024-05-01T10:00:07+00:00''\<rparr>"

definition exited :: "int \<Rightarrow> string \<Rightarrow> string \<Rightarrow> string + raw_process" where
  "exited code out err = Inr \<lparr>raw_returncode = code, raw_stdout = out, raw_stderr = err\<rparr>"

text \<open>
  A console whose encoding has no character outside ASCII, as the code page of a redirected
  standard output on Windows: \<open>print\<close> raises on a text with such a character.
\<close>

definition narrow_console :: "string \<Rightarrow> string option" where
  "narrow_console t =
     (if list_ex (\<lambda>c. 128 \<le> (of_char c :: nat)) t
      then Some ''charmap codec cannot encode character'' else None)"

definition on_narrow_console :: "host \<Rightarrow> host" where
  "on_narrow_console h = h\<lparr>print_raises := narrow_console\<rparr>"

definition sample_record :: "string \<Rightarrow> string \<Rightarrow> record_dict" where
  "sample_record ts st =
     \<lparr>timestamp = ts, environment = ''development'', platform = ''linux'',
      verify_integrity = True, status = st, returncode = Some (if st = ''success'' then 0 else 1),
      record_output = Some [], error = None\<rparr>"

text \<open>A state after one successful rehydration of \<open>development\<close>.\<close>

definition hydrated_state :: state_dict where
  "hydrated_state =
     \<lparr>last_rehydration = Some ''2024-04-30T09:00:00+00:00'',
      rehydration_history = Some [sample_record ''2024-04-30T09:00:00+00:00'' ''success''],
      active_environments = Some [''development''],
      system_status = Some ''hydrated''\<rparr>"

definition linux_script :: script_dict where
  "linux_script = \<lparr>script_platform = ''linux'', script_path = ''rehydrate.sh''\<rparr>"

text \<open>The command built for \<open>linux_script\<close>, the environment \<open>development\<close> and verification.\<close>

definition linux_command :: "string list" where
  "linux_command = [''bash'', ''/opt/grs/rehydrate.sh'', ''--environment=development'', ''--verify'']"

definition disk_full :: raw_process where
  "disk_full = \<lparr>raw_returncode = 1, raw_stdout = ''restoring'', raw_stderr = ''disk full''\<rparr>"

text \<open>The same script, writing its line with the line ending CR LF.\<close>

definition disk_full_crlf :: raw_process where
  "disk_full_crlf = \<lparr>raw_returncode = 1, raw_stdout = ''restoring'' @ [CR, LF],
     raw_stderr = ''disk full''\<rparr>"

definition disk_full_crlf_host :: host where
  "disk_full_crlf_host = sample_host ''Linux'' True (Inr disk_full_crlf)"

definition disk_full_host :: host where
  "disk_full_host = sample_host ''Linux'' True (Inr disk_full)"

definition missing_script_host :: host where
  "missing_script_host = sample_host ''Linux'' False (Inr disk_full)"

text \<open>
  A Windows host whose standard output is redirected, so that the console is narrow; the
  scripts are on disk under \<open>windows_dir\<close>.
\<close>

definition windows_dir :: string where
  "windows_dir = ''C:'' @ [CHR 0x5C] @ ''grs'' @ [CHR 0x5C]"

definition windows_host :: "bool \<Rightarrow> string + raw_process \<Rightarrow> host" where
  "windows_host present outcome =
     on_narrow_console ((sample_host ''Windows'' present outcome)
       \<lparr>path_of := (\<lambda>p. windows_dir @ p)\<rparr>)"

definition windows_script :: script_dict where
  "windows_script = \<lparr>script_platform = ''windows'', script_path = ''rehydrate.ps1''\<rparr>"

definition windows_command :: "string list" where
  "windows_command = [''powershell'', ''-ExecutionPolicy'', ''Bypass'', ''-File'',
     windows_dir @ ''rehydrate.ps1'', ''-Environment'', ''development'', ''-VerifyIntegrity'']"

definition eleven_records :: "record_dict list" where
  "eleven_records = map (\<lambda>ts. sample_record ts ''failed'')
     [''t01'', ''t02'', ''t03'', ''t04'', ''t05'', ''t06'', ''t07'', ''t08'', ''t09'', ''t10'',
      ''t11'']"

section \<open>Properties\<close>

subsection \<open>Auxiliary facts\<close>

lemmas eval_defs =
  rehydrate_def handle_exception_def complete_attempt_def already_hydrated_def
  resolve_environment_def resolve_verify_def
  detect_platform_def lower_def lower_char_def ascii_uppercase_def ascii_lowercase_def
  get_script_for_platform_def get_scripts_def
  execute_platform_script_def subprocess_run_def build_command_def start_record_def
  mark_hydrated_def append_history_def save_state_def get_history_list_def get_active_list_def
  success_line_def failure_line_def stderr_line_def error_line_def check_mark_def ballot_x_def
  CR_def LF_def narrow_console_def on_narrow_console_def
  sample_config_def sample_manifest_def windows_only_manifest_def sample_grs_def
  fresh_world_def sample_host_def exited_def sample_record_def hydrated_state_def
  default_state_def reset_def linux_script_def linux_command_def disk_full_def
  disk_full_crlf_def disk_full_crlf_host_def disk_full_host_def missing_script_host_def
  windows_host_def windows_script_def windows_command_def Let_def


lemma rehydrate_skip:
  "already_hydrated (state g) (resolve_environment (config g) env_arg) force \<Longrightarrow>
   rehydrate h env_arg verify_arg force (g, w) =
     (Inr \<lparr>success = True, message = ''Already hydrated'', skipped = Some True,
           details = None\<rparr>, g, w)"
  by (simp add: rehydrate_def Let_def)

lemma rehydrate_no_script:
  "\<not> already_hydrated (state g) (resolve_environment (config g) env_arg) force \<Longrightarrow>
   get_script_for_platform (manifest g) (detect_platform (platform_system h)) = None \<Longrightarrow>
   rehydrate h env_arg verify_arg force (g, w) =
     (Inl (ValueError (''No script found for platform: '' @ detect_platform (platform_system h))),
      g, w)"
  by (simp add: rehydrate_def Let_def)

lemma rehydrate_raised:
  assumes "\<not> already_hydrated (state g) (resolve_environment (config g) env_arg) force"
    and "get_script_for_platform (manifest g) (detect_platform (platform_system h)) = Some si"
    and "execute_platform_script h si (resolve_environment (config g) env_arg)
           (resolve_verify (config g) verify_arg) w = (Inl e, w1)"
  shows "rehydrate h env_arg verify_arg force (g, w) =
     handle_exception h e
       (start_record h (resolve_environment (config g) env_arg)
          (detect_platform (platform_system h)) (resolve_verify (config g) verify_arg)) g w1"
  using assms by (simp add: rehydrate_def Let_def)

lemma rehydrate_ran:
  assumes "\<not> already_hydrated (state g) (resolve_environment (config g) env_arg) force"
    and "get_script_for_platform (manifest g) (detect_platform (platform_system h)) = Some si"
    and "execute_platform_script h si (resolve_environment (config g) env_arg)
           (resolve_verify (config g) verify_arg) w = (Inr result, w1)"
  shows "rehydrate h env_arg verify_arg force (g, w) =
     (let env = resolve_environment (config g) env_arg;
          r = ran_record h env (resolve_verify (config g) verify_arg) result
      in if exec_success result then
           (case print_raises h success_line of
              Some e \<Rightarrow> handle_exception h e r (g\<lparr>state := mark_hydrated h env (state g)\<rparr>) w1
            | None \<Rightarrow> complete_attempt result r (g\<lparr>state := mark_hydrated h env (state g)\<rparr>) w1)
         else
           (case print_raises h failure_line of
              Some e \<Rightarrow> handle_exception h e r g w1
            | None \<Rightarrow>
                (case print_raises h (stderr_line (exec_stderr result)) of
                   Some e \<Rightarrow> handle_exception h e r g w1
                 | None \<Rightarrow> complete_attempt result r g w1)))"
  using assms by (simp add: rehydrate_def ran_record_def Let_def)

lemma handle_exception_effect:
  "snd (handle_exception h e r g w) =
     (g\<lparr>state := append_history (r\<lparr>status := ''error'', error := Some e\<rparr>) (state g)\<rparr>,
      save_state (append_history (r\<lparr>status := ''error'', error := Some e\<rparr>) (state g)) w)"
  by (simp add: handle_exception_def Let_def split: option.splits)

lemma complete_attempt_effect:
  "snd (complete_attempt result r g w) =
     (g\<lparr>state := append_history r (state g)\<rparr>, save_state (append_history r (state g)) w)"
  by (simp add: complete_attempt_def Let_def)

lemma slice_from_neg: "0 < l \<Longrightarrow> slice_from xs (- l) = drop (length xs - nat l) xs"
  by (auto simp: slice_from_def Let_def max_def nat_diff_distrib' intro: arg_cong2[where f=drop])

lemma slice_from_pos: "0 < k \<Longrightarrow> slice_from xs k = drop (nat k) xs"
  by (auto simp: slice_from_def Let_def min_def)

lemma run_snoc: "run (ops @ [opn]) gw = step opn (run ops gw)"
  by (induction ops arbitrary: gw) simp_all

lemma outcomes_snoc: "outcomes (ops @ [opn]) gw = outcomes ops gw @ [outcome_of opn (run ops gw)]"
  by (induction ops arbitrary: gw) simp_all

lemma success_since_reset_snoc:
  "success_since_reset (os @ [x]) =
     (case x of WasReset \<Rightarrow> False
      | Attempt s \<Rightarrow> s = ''success'' \<or> success_since_reset os
      | _ \<Rightarrow> success_since_reset os)"
  by (cases x) (auto simp: success_since_reset_def since_last_reset_def)

text \<open>The four ways through rehydrate.\<close>

lemma rehydrate_cases:
  obtains (skip) "already_hydrated (state g) (resolve_environment (config g) env_arg) force"
  | (no_script) "\<not> already_hydrated (state g) (resolve_environment (config g) env_arg) force"
      "get_script_for_platform (manifest g) (detect_platform (platform_system h)) = None"
  | (ran) si result w1 where
      "\<not> already_hydrated (state g) (resolve_environment (config g) env_arg) force"
      "get_script_for_platform (manifest g) (detect_platform (platform_system h)) = Some si"
      "execute_platform_script h si (resolve_environment (config g) env_arg)
         (resolve_verify (config g) verify_arg) w = (Inr result, w1)"
  | (raised) si e w1 where
      "\<not> already_hydrated (state g) (resolve_environment (config g) env_arg) force"
      "get_script_for_platform (manifest g) (detect_platform (platform_system h)) = Some si"
      "execute_platform_script h si (resolve_environment (config g) env_arg)
         (resolve_verify (config g) verify_arg) w = (Inl e, w1)"
proof (cases "already_hydrated (state g) (resolve_environment (config g) env_arg) force")
  case True
  then show ?thesis by (rule skip)
next
  case nh: False
  show ?thesis
  proof (cases "get_script_for_platform (manifest g) (detect_platform (platform_system h))")
    case None
    with nh show ?thesis by (rule no_script)
  next
    case (Some si)
    obtain x w1 where ex: "execute_platform_script h si (resolve_environment (config g) env_arg)
         (resolve_verify (config g) verify_arg) w = (x, w1)"
      by (cases "execute_platform_script h si (resolve_environment (config g) env_arg)
         (resolve_verify (config g) verify_arg) w")
    show ?thesis
    proof (cases x)
      case (Inl e)
      with nh Some ex show ?thesis by (auto intro: raised)
    next
      case (Inr result)
      with nh Some ex show ?thesis by (auto intro: ran)
    qed
  qed
qed


lemma no_in_progress_snoc:
  "no_in_progress (rs @ [r]) \<longleftrightarrow> no_in_progress rs \<and> status r \<noteq> ''in_progress''"
  by (auto simp: no_in_progress_def)

lemma terminal_not_in_progress: "terminal_status s \<Longrightarrow> s \<noteq> ''in_progress''"
  by (auto simp: terminal_status_def)

lemma handle_exception_appends:
  "\<exists>r'. get_history_list (state (fst (snd (handle_exception h e r g w))))
            = get_history_list (state g) @ [r'] \<and>
          status r' = ''error'' \<and>
          persisted (snd (snd (handle_exception h e r g w)))
            = Some (state (fst (snd (handle_exception h e r g w))))"
  by (simp add: handle_exception_effect append_history_def save_state_def get_history_list_def)

lemma complete_attempt_appends:
  "get_history_list (state (fst (snd (complete_attempt result r g w))))
     = get_history_list (state g) @ [r] \<and>
   persisted (snd (snd (complete_attempt result r g w)))
     = Some (state (fst (snd (complete_attempt result r g w))))"
  by (simp add: complete_attempt_effect append_history_def save_state_def get_history_list_def)

lemma ran_record_terminal: "terminal_status (status (ran_record h env verify result))"
  by (simp add: ran_record_def terminal_status_def)

lemma mark_hydrated_history:
  "get_history_list (mark_hydrated h env st) = get_history_list st"
  by (simp add: mark_hydrated_def get_history_list_def)

lemma rehydrate_appends:
  assumes "reaches_invocation h env_arg force g"
  shows "\<exists>r. get_history_list (state (fst (snd (rehydrate h env_arg verify_arg force (g, w)))))
               = get_history_list (state g) @ [r] \<and>
             terminal_status (status r) \<and>
             persisted (snd (snd (rehydrate h env_arg verify_arg force (g, w))))
               = Some (state (fst (snd (rehydrate h env_arg verify_arg force (g, w)))))"
proof (cases rule: rehydrate_cases[where g=g and env_arg=env_arg and force=force and h=h
      and verify_arg=verify_arg and w=w])
  case skip
  with assms show ?thesis by (simp add: reaches_invocation_def)
next
  case no_script
  with assms show ?thesis by (simp add: reaches_invocation_def)
next
  case (raised si e w1)
  from handle_exception_appends[of h e _ g w1] show ?thesis
    unfolding rehydrate_raised[OF raised] by (auto simp: terminal_status_def)
next
  case (ran si result w1)
  let ?env = "resolve_environment (config g) env_arg"
  let ?r = "ran_record h ?env (resolve_verify (config g) verify_arg) result"
  let ?g1 = "g\<lparr>state := mark_hydrated h ?env (state g)\<rparr>"
  have hist1: "get_history_list (state ?g1) = get_history_list (state g)"
    by (simp add: mark_hydrated_history)
  note he = handle_exception_appends[of h _ ?r g w1]
    handle_exception_appends[of h _ ?r ?g1 w1, unfolded hist1]
  note ca = complete_attempt_appends[of result ?r g w1]
    complete_attempt_appends[of result ?r ?g1 w1, unfolded hist1]
  show ?thesis
    unfolding rehydrate_ran[OF ran] Let_def
    using he ca ran_record_terminal[of h ?env "resolve_verify (config g) verify_arg" result]
    by (auto simp: terminal_status_def split: option.splits)
qed

lemma rehydrate_unchanged_or_appends:
  "snd (rehydrate h env_arg verify_arg force (g, w)) = (g, w) \<or>
   reaches_invocation h env_arg force g"
  by (cases rule: rehydrate_cases[where g=g and env_arg=env_arg and force=force and h=h
      and verify_arg=verify_arg and w=w])
    (simp_all add: rehydrate_skip rehydrate_no_script reaches_invocation_def)

lemma step_keeps_clean:
  assumes "no_in_progress (get_history_list (state (fst gw)))" and "persisted_clean (snd gw)"
  shows "no_in_progress (get_history_list (state (fst (step opn gw)))) \<and>
         persisted_clean (snd (step opn gw))"
proof (cases opn)
  case Reset
  then show ?thesis
    by (simp add: reset_def default_state_def save_state_def persisted_clean_def
        no_in_progress_def get_history_list_def)
next
  case (Rehydrate h env_arg verify_arg force)
  obtain g w where gw: "gw = (g, w)" by (cases gw)
  from rehydrate_unchanged_or_appends[of h env_arg verify_arg force g w] show ?thesis
  proof
    assume "snd (rehydrate h env_arg verify_arg force (g, w)) = (g, w)"
    with assms Rehydrate gw show ?thesis by simp
  next
    assume "reaches_invocation h env_arg force g"
    from rehydrate_appends[OF this, of verify_arg w] obtain r where
      r: "get_history_list (state (fst (snd (rehydrate h env_arg verify_arg force (g, w)))))
               = get_history_list (state g) @ [r]" "terminal_status (status r)"
        "persisted (snd (snd (rehydrate h env_arg verify_arg force (g, w))))
               = Some (state (fst (snd (rehydrate h env_arg verify_arg force (g, w)))))"
      by blast
    with assms Rehydrate gw show ?thesis
      by (simp add: persisted_clean_def no_in_progress_snoc terminal_not_in_progress)
  qed
qed

lemma run_keeps_clean:
  "no_in_progress (get_history_list (state (fst gw))) \<Longrightarrow> persisted_clean (snd gw) \<Longrightarrow>
   no_in_progress (get_history_list (state (fst (run ops gw)))) \<and>
   persisted_clean (snd (run ops gw))"
proof (induction ops arbitrary: gw)
  case Nil
  then show ?case by simp
next
  case (Cons opn ops)
  from step_keeps_clean[OF Cons.prems, of opn] Cons.IH[of "step opn gw"]
  show ?case by simp
qed

lemma execute_ran:
  assumes "path_exists h (path_of h (script_path si))"
    and "subprocess_run h (build_command si (path_of h (script_path si)) env verify) = Inr cp"
  shows "execute_platform_script h si env verify w =
     (Inr \<lparr>exec_success = (cp_returncode cp = 0), exec_returncode = cp_returncode cp,
            exec_stdout = cp_stdout cp, exec_stderr = cp_stderr cp\<rparr>,
      w\<lparr>subprocess_calls :=
           subprocess_calls w @ [build_command si (path_of h (script_path si)) env verify]\<rparr>)"
  using assms by (simp add: execute_platform_script_def Let_def)

lemma subprocess_run_decoded:
  assumes "spawn h cmd = Inr raw" and "decode h (raw_stdout raw) = Inr out"
    and "decode h (raw_stderr raw) = Inr err"
  shows "subprocess_run h cmd =
     Inr \<lparr>cp_returncode = raw_returncode raw, cp_stdout = universal_newlines out,
           cp_stderr = universal_newlines err\<rparr>"
  using assms by (simp add: subprocess_run_def)

lemma universal_newlines_without_CR: "CR \<notin> set t \<Longrightarrow> universal_newlines t = t"
  by (induction t rule: universal_newlines.induct) auto

lemma step_status:
  assumes "prints_success_line opn"
  shows "system_status (state (fst (step opn gw))) = Some ''hydrated'' \<longleftrightarrow>
     (case outcome_of opn gw of
        WasReset \<Rightarrow> False
      | Attempt s \<Rightarrow> s = ''success'' \<or> system_status (state (fst gw)) = Some ''hydrated''
      | _ \<Rightarrow> system_status (state (fst gw)) = Some ''hydrated'')"
proof (cases opn)
  case Reset
  then show ?thesis by (simp add: reset_def default_state_def)
next
  case (Rehydrate h env_arg verify_arg force)
  obtain g w where gw: "gw = (g, w)" by (cases gw)
  from assms Rehydrate have pr: "print_raises h success_line = None" by simp
  show ?thesis
  proof (cases rule: rehydrate_cases[where g=g and env_arg=env_arg and force=force and h=h
        and verify_arg=verify_arg and w=w])
    case skip
    then show ?thesis using Rehydrate gw by (simp add: rehydrate_skip)
  next
    case no_script
    then show ?thesis using Rehydrate gw by (simp add: rehydrate_no_script)
  next
    case (raised si e w1)
    show ?thesis using Rehydrate gw
      by (simp add: rehydrate_raised[OF raised] handle_exception_def Let_def append_history_def
          get_history_list_def split: option.splits)
  next
    case (ran si result w1)
    show ?thesis using Rehydrate gw pr
      by (simp add: rehydrate_ran[OF ran] handle_exception_def complete_attempt_def Let_def
          append_history_def get_history_list_def mark_hydrated_def ran_record_def
          split: option.splits)
  qed
qed

lemma handle_exception_history:
  "get_history_list (state (fst (snd (handle_exception h e r g w))))
     = get_history_list (state g) @ [r\<lparr>status := ''error'', error := Some e\<rparr>]"
  by (simp add: handle_exception_effect append_history_def get_history_list_def)

lemma complete_attempt_history:
  "get_history_list (state (fst (snd (complete_attempt result r g w))))
     = get_history_list (state g) @ [r]"
  by (simp add: complete_attempt_effect append_history_def get_history_list_def)

subsection \<open>The idempotency gate\<close>



subsection \<open>One terminal record for each attempt\<close>

text \<open>
  Claim C2. Every call of \<open>rehydrate\<close> that reaches the script invocation appends exactly
  one record to \<open>rehydration_history\<close>, with a status among \<open>success\<close>, \<open>failed\<close> and
  \<open>error\<close> when it is appended, and writes the state file; and from an object and a state
  file without a record in progress, no sequence of operations leaves a record with status
  \<open>in_progress\<close> in the state file.
\<close>

theorem C2_one_terminal_record:
  "(reaches_invocation h env_arg force g \<longrightarrow>
      (\<exists>r. get_history_list (state (fst (snd (rehydrate h env_arg verify_arg force (g, w)))))
               = get_history_list (state g) @ [r] \<and>
            terminal_status (status r) \<and>
            persisted (snd (snd (rehydrate h env_arg verify_arg force (g, w))))
               = Some (state (fst (snd (rehydrate h env_arg verify_arg force (g, w))))))) \<and>
   (no_in_progress (get_history_list (state g0)) \<and> persisted_clean w0 \<longrightarrow>
      persisted_clean (snd (run ops (g0, w0))))"
  using rehydrate_appends[of h env_arg force g verify_arg w]
    run_keeps_clean[of "(g0, w0)" ops]
  by simp

theorem C2_witness:
  "reaches_invocation disk_full_host None True (sample_grs sample_manifest hydrated_state) \<and>
   (\<exists>r. get_history_list (state (fst (snd (rehydrate disk_full_host None None True
              (sample_grs sample_manifest hydrated_state, fresh_world)))))
            = [sample_record ''2024-04-30T09:00:00+00:00'' ''success'', r] \<and>
         terminal_status (status r) \<and>
         persisted (snd (snd (rehydrate disk_full_host None None True
              (sample_grs sample_manifest hydrated_state, fresh_world))))
            = Some (state (fst (snd (rehydrate disk_full_host None None True
              (sample_grs sample_manifest hydrated_state, fresh_world)))))) \<and>
   no_in_progress (get_history_list (state (sample_grs sample_manifest default_state))) \<and>
   persisted_clean fresh_world \<and>
   persisted_clean (snd (run
     [Rehydrate disk_full_host None None False, Rehydrate missing_script_host None None False,
      Reset, Rehydrate (sample_host ''Linux'' True (exited 0 ''ok'' [])) None None False]
     (sample_grs sample_manifest default_state, fresh_world)))"
proof -
  have a: "reaches_invocation disk_full_host None True
             (sample_grs sample_manifest hydrated_state)"
    by (simp add: reaches_invocation_def eval_defs)
  have b: "no_in_progress (get_history_list (state (sample_grs sample_manifest default_state)))"
    by (simp add: no_in_progress_def eval_defs)
  have c: "persisted_clean fresh_world"
    by (simp add: persisted_clean_def fresh_world_def)
  have d: "get_history_list (state (sample_grs sample_manifest hydrated_state))
             = [sample_record ''2024-04-30T09:00:00+00:00'' ''success'']"
    by (simp add: sample_grs_def hydrated_state_def get_history_list_def)
  show ?thesis
    using a b c
      C2_one_terminal_record [where h = disk_full_host and env_arg = None and force = True
        and g = "sample_grs sample_manifest hydrated_state" and verify_arg = None
        and w = fresh_world and g0 = "sample_grs sample_manifest default_state"
        and w0 = fresh_world
        and ops = "[Rehydrate disk_full_host None None False,
                    Rehydrate missing_script_host None None False, Reset,
                    Rehydrate (sample_host ''Linux'' True (exited 0 ''ok'' [])) None None False]"]
    unfolding d by simp
qed

subsection \<open>Exceptions of the invocation\<close>

text \<open>
  Where the \<open>except\<close> block prints its line, an exception of the invocation gives a result
  with \<open>success\<close> false and one record with status \<open>error\<close>.
\<close>

lemma exception_recorded_when_printed:
  assumes "\<not> already_hydrated (state g) (resolve_environment (config g) env_arg) force"
    and "get_script_for_platform (manifest g) (detect_platform (platform_system h)) = Some si"
    and "execute_platform_script h si (resolve_environment (config g) env_arg)
           (resolve_verify (config g) verify_arg) w = (Inl e, w1)"
    and "print_raises h (error_line e) = None"
  shows "\<exists>res r g' w'.
           rehydrate h env_arg verify_arg force (g, w) = (Inr res, g', w') \<and>
           \<not> success res \<and> details res = Some r \<and>
           get_history_list (state g') = get_history_list (state g) @ [r] \<and>
           status r = ''error'' \<and> error r = Some e \<and>
           system_status (state g') = system_status (state g) \<and>
           active_environments (state g') = active_environments (state g) \<and>
           persisted w' = Some (state g')"
  using assms(4)
  by (simp add: rehydrate_raised[OF assms(1-3)] handle_exception_def Let_def
      append_history_def save_state_def get_history_list_def start_record_def)

text \<open>
  Claim C3. At the failing input the registered script is missing and the console is
  narrow: the \<open>except\<close> block appends the error record and saves the state, and its
  \<open>print\<close> then raises, so that \<open>rehydrate\<close> returns no result.
\<close>

theorem C3_handler_print_raises:
  "get_script_for_platform (manifest (sample_grs sample_manifest default_state))
     (detect_platform (platform_system (windows_host False (Inr disk_full))))
     = Some windows_script \<and>
   path_exists (windows_host False (Inr disk_full))
     (path_of (windows_host False (Inr disk_full)) (script_path windows_script)) = False \<and>
   rehydrate (windows_host False (Inr disk_full)) None None False
     (sample_grs sample_manifest default_state, fresh_world)
   = (Inl (ConsoleError ''charmap codec cannot encode character''),
      sample_grs sample_manifest
        (default_state\<lparr>rehydration_history := Some
           [\<lparr>timestamp = ''2024-05-01T10:00:00+00:00'', environment = ''development'',
             platform = ''windows'', verify_integrity = True, status = ''error'',
             returncode = None, record_output = None,
             error = Some (''Script not found: '' @ windows_dir @ ''rehydrate.ps1'')\<rparr>]\<rparr>),
      \<lparr>persisted = Some (default_state\<lparr>rehydration_history := Some
           [\<lparr>timestamp = ''2024-05-01T10:00:00+00:00'', environment = ''development'',
             platform = ''windows'', verify_integrity = True, status = ''error'',
             returncode = None, record_output = None,
             error = Some (''Script not found: '' @ windows_dir @ ''rehydrate.ps1'')\<rparr>]\<rparr>),
       subprocess_calls = []\<rparr>)"
  by (simp add: eval_defs windows_dir_def)

subsection \<open>No script for the platform\<close>




subsection \<open>A script that exits with a nonzero code\<close>

text \<open>
  Where the two lines of a failure are printed, a script that exits with a nonzero code
  gives one record with status \<open>failed\<close> and that code, and changes nothing else.
\<close>

lemma nonzero_exit_when_printed:
  assumes "\<not> already_hydrated (state g) (resolve_environment (config g) env_arg) force"
    and "get_script_for_platform (manifest g) (detect_platform (platform_system h)) = Some si"
    and "path_exists h (path_of h (script_path si))"
    and "spawn h (build_command si (path_of h (script_path si))
           (resolve_environment (config g) env_arg) (resolve_verify (config g) verify_arg))
         = Inr raw"
    and "decode h (raw_stdout raw) = Inr out" and "decode h (raw_stderr raw) = Inr err"
    and "raw_returncode raw \<noteq> 0"
    and "print_raises h failure_line = None"
    and "print_raises h (stderr_line (universal_newlines err)) = None"
  shows "\<exists>res r g' w'.
           rehydrate h env_arg verify_arg force (g, w) = (Inr res, g', w') \<and>
           details res = Some r \<and>
           get_history_list (state g') = get_history_list (state g) @ [r] \<and>
           status r = ''failed'' \<and> returncode r = Some (raw_returncode raw) \<and>
           system_status (state g') = system_status (state g) \<and>
           active_environments (state g') = active_environments (state g) \<and>
           last_rehydration (state g') = last_rehydration (state g)"
proof -
  note ex = execute_ran[OF assms(3) subprocess_run_decoded[OF assms(4-6)], where w=w]
  show ?thesis
    using assms(7-9)
    by (simp add: rehydrate_ran[OF assms(1,2) ex] complete_attempt_def Let_def
        append_history_def get_history_list_def ran_record_def start_record_def)
qed

text \<open>
  Claim C5. At the failing input the script runs and exits with code 1 on a narrow
  console: the \<open>print\<close> of the failure line raises inside the \<open>try\<close> block, the \<open>except\<close>
  block overwrites the status \<open>failed\<close> with \<open>error\<close>, and the appended record is an error
  record with the return code 1.
\<close>

theorem C5_failed_becomes_error:
  "spawn (windows_host True (Inr disk_full)) windows_command = Inr disk_full \<and>
   raw_returncode disk_full = 1 \<and>
   rehydrate (windows_host True (Inr disk_full)) None None False
     (sample_grs sample_manifest default_state, fresh_world)
   = (Inl (ConsoleError ''charmap codec cannot encode character''),
      sample_grs sample_manifest
        (default_state\<lparr>rehydration_history := Some
           [\<lparr>timestamp = ''2024-05-01T10:00:00+00:00'', environment = ''development'',
             platform = ''windows'', verify_integrity = True, status = ''error'',
             returncode = Some 1, record_output = Some ''restoring'',
             error = Some ''charmap codec cannot encode character''\<rparr>]\<rparr>),
      \<lparr>persisted = Some (default_state\<lparr>rehydration_history := Some
           [\<lparr>timestamp = ''2024-05-01T10:00:00+00:00'', environment = ''development'',
             platform = ''windows'', verify_integrity = True, status = ''error'',
             returncode = Some 1, record_output = Some ''restoring'',
             error = Some ''charmap codec cannot encode character''\<rparr>]\<rparr>),
       subprocess_calls = [windows_command]\<rparr>)"
  by (simp add: eval_defs windows_dir_def)

subsection \<open>The status and the attempts since the last reset\<close>

text \<open>
  Where every operation prints its line of success, \<open>system_status\<close> is \<open>hydrated\<close> exactly
  when an attempt with status \<open>success\<close> has occurred since the most recent reset.
\<close>

lemma hydrated_iff_success_when_printed:
  assumes "state g0 = default_state" and "list_all prints_success_line ops"
  shows "system_status (state (fst (run ops (g0, w0)))) = Some ''hydrated'' \<longleftrightarrow>
         success_since_reset (outcomes ops (g0, w0))"
  using assms(2)
proof (induction ops rule: rev_induct)
  case Nil
  from assms(1) show ?case
    by (simp add: default_state_def success_since_reset_def since_last_reset_def)
next
  case (snoc opn ops)
  then show ?case
    by (simp add: run_snoc outcomes_snoc step_status success_since_reset_snoc
        split: outcome.splits)
qed

text \<open>
  Claim C6. At the failing input the first operation on the default state is a
  rehydration whose script exits with code 0 on a narrow console: the state is set to
  \<open>hydrated\<close>, the \<open>print\<close> of the success line raises, and the only record is an error
  record. The status is \<open>hydrated\<close> and no attempt with status \<open>success\<close> has occurred.
\<close>

theorem C6_hydrated_without_success:
  "system_status (state (fst (run
     [Rehydrate (windows_host True (exited 0 ''ok'' [])) None None False]
     (sample_grs sample_manifest default_state, fresh_world)))) = Some ''hydrated'' \<and>
   map status (get_history_list (state (fst (run
     [Rehydrate (windows_host True (exited 0 ''ok'' [])) None None False]
     (sample_grs sample_manifest default_state, fresh_world))))) = [''error''] \<and>
   outcomes [Rehydrate (windows_host True (exited 0 ''ok'' [])) None None False]
     (sample_grs sample_manifest default_state, fresh_world) = [Attempt ''error''] \<and>
   \<not> success_since_reset (outcomes
     [Rehydrate (windows_host True (exited 0 ''ok'' [])) None None False]
     (sample_grs sample_manifest default_state, fresh_world))"
  by (simp add: eval_defs windows_dir_def success_since_reset_def since_last_reset_def)

subsection \<open>The window of the history\<close>

text \<open>
  Claim C7, as amended. For a positive \<open>limit\<close>, \<open>get_history(limit)\<close> returns the most
  recent \<open>limit\<close> records (all of them when there are fewer) in their chronological order;
  with \<open>limit\<close> equal to 0 or to \<open>None\<close> it returns the full history; and with \<open>limit\<close>
  left out it returns the most recent 10 records, the default of the parameter.
\<close>

theorem C7_history_window:
  "(0 < l \<longrightarrow>
      get_history g (Some l)
        = drop (length (get_history_list (state g)) - nat l) (get_history_list (state g)) \<and>
      length (get_history g (Some l)) = min (nat l) (length (get_history_list (state g)))) \<and>
   get_history g (Some 0) = get_history_list (state g) \<and>
   get_history g None = get_history_list (state g) \<and>
   get_history_no_limit g
     = drop (length (get_history_list (state g)) - 10) (get_history_list (state g))"
  by (auto simp: get_history_def get_history_no_limit_def Let_def slice_from_neg)

theorem C7_witness:
  "(0::int) < 2 \<and>
   get_history (sample_grs sample_manifest
       (default_state\<lparr>rehydration_history := Some eleven_records\<rparr>)) (Some 2)
     = map (\<lambda>ts. sample_record ts ''failed'') [''t10'', ''t11'']"
proof -
  have a: "(0::int) < 2" by simp
  have b: "get_history_list (state (sample_grs sample_manifest
       (default_state\<lparr>rehydration_history := Some eleven_records\<rparr>))) = eleven_records"
    by (simp add: sample_grs_def get_history_list_def)
  show ?thesis
    using a C7_history_window [of 2 "sample_grs sample_manifest
       (default_state\<lparr>rehydration_history := Some eleven_records\<rparr>)"]
    unfolding b by (simp add: eleven_records_def)
qed

text \<open>
  Against claim C7 as stated: on a history of eleven records, \<open>get_history()\<close> with
  \<open>limit\<close> left out returns ten records, not the full history.
\<close>

theorem C7_counterexample:
  "get_history_no_limit (sample_grs sample_manifest
       (default_state\<lparr>rehydration_history := Some eleven_records\<rparr>))
     = map (\<lambda>ts. sample_record ts ''failed'')
         [''t02'', ''t03'', ''t04'', ''t05'', ''t06'', ''t07'', ''t08'', ''t09'', ''t10'', ''t11''] \<and>
   get_history_no_limit (sample_grs sample_manifest
       (default_state\<lparr>rehydration_history := Some eleven_records\<rparr>))
     \<noteq> get_history_list (state (sample_grs sample_manifest
       (default_state\<lparr>rehydration_history := Some eleven_records\<rparr>)))"
  by (simp add: get_history_no_limit_def get_history_def slice_from_def Let_def
      sample_grs_def get_history_list_def eleven_records_def)

subsection \<open>The captured output\<close>

text \<open>
  Claim C8, as amended. For every attempt in which the script process runs and both of its
  streams decode, the appended history record holds under \<open>output\<close> the decoded standard
  output with the line endings CR LF and CR translated to LF, which is the written text
  itself when that has no CR. The standard error is captured in the result of the invoker
  and is not stored in the record: the texts of the record are its timestamp,
  environment, platform, status, the output and, when a \<open>print\<close> after the invocation
  raised, the message of that exception.
\<close>

theorem C8_decoded_stdout_recorded:
  assumes "\<not> already_hydrated (state g) (resolve_environment (config g) env_arg) force"
    and "get_script_for_platform (manifest g) (detect_platform (platform_system h)) = Some si"
    and "path_exists h (path_of h (script_path si))"
    and "spawn h (build_command si (path_of h (script_path si))
           (resolve_environment (config g) env_arg) (resolve_verify (config g) verify_arg))
         = Inr raw"
    and "decode h (raw_stdout raw) = Inr out"
    and "decode h (raw_stderr raw) = Inr err"
  shows "\<exists>x r g' w' result w1.
           rehydrate h env_arg verify_arg force (g, w) = (x, g', w') \<and>
           get_history_list (state g') = get_history_list (state g) @ [r] \<and>
           record_output r = Some (universal_newlines out) \<and>
           (CR \<notin> set out \<longrightarrow> record_output r = Some out) \<and>
           record_texts r =
             [now_start h, resolve_environment (config g) env_arg,
              detect_platform (platform_system h), status r, universal_newlines out]
             @ (case error r of None \<Rightarrow> [] | Some e \<Rightarrow> [e]) \<and>
           error r \<in> set [None, print_raises h success_line, print_raises h failure_line,
                           print_raises h (stderr_line (universal_newlines err))] \<and>
           execute_platform_script h si (resolve_environment (config g) env_arg)
             (resolve_verify (config g) verify_arg) w = (Inr result, w1) \<and>
           exec_stdout result = universal_newlines out \<and>
           exec_stderr result = universal_newlines err"
proof -
  let ?env = "resolve_environment (config g) env_arg"
  let ?verify = "resolve_verify (config g) verify_arg"
  let ?result = "\<lparr>exec_success = (raw_returncode raw = 0), exec_returncode = raw_returncode raw,
      exec_stdout = universal_newlines out, exec_stderr = universal_newlines err\<rparr>"
  let ?r = "ran_record h ?env ?verify ?result"
  have ex: "execute_platform_script h si ?env ?verify w =
      (Inr ?result, w\<lparr>subprocess_calls := subprocess_calls w
         @ [build_command si (path_of h (script_path si)) ?env ?verify]\<rparr>)"
    using execute_ran[OF assms(3) subprocess_run_decoded[OF assms(4-6)], where w=w] by simp
  have out: "CR \<notin> set out \<longrightarrow> universal_newlines out = out"
    by (simp add: universal_newlines_without_CR)
  let ?prints = "[print_raises h success_line, print_raises h failure_line,
      print_raises h (stderr_line (universal_newlines err))]"
  obtain x g' w' where res: "rehydrate h env_arg verify_arg force (g, w) = (x, g', w')"
    by (cases "rehydrate h env_arg verify_arg force (g, w)")
  have "\<exists>r. get_history_list (state (fst (snd (rehydrate h env_arg verify_arg force (g, w)))))
            = get_history_list (state g) @ [r] \<and>
          (r = ?r \<or> (\<exists>e. Some e \<in> set ?prints \<and> r = ?r\<lparr>status := ''error'', error := Some e\<rparr>))"
    unfolding rehydrate_ran[OF assms(1,2) ex] Let_def
    by (auto simp: handle_exception_history complete_attempt_history mark_hydrated_history
        split: option.splits)
  then obtain r where hist: "get_history_list (state g') = get_history_list (state g) @ [r]"
    and r: "r = ?r \<or> (\<exists>e. Some e \<in> set ?prints \<and> r = ?r\<lparr>status := ''error'', error := Some e\<rparr>)"
    using res by auto
  from r have ro: "record_output r = Some (universal_newlines out)"
    by (auto simp: ran_record_def)
  from r have rt: "record_texts r =
        [now_start h, ?env, detect_platform (platform_system h), status r,
         universal_newlines out]
        @ (case error r of None \<Rightarrow> [] | Some e \<Rightarrow> [e])"
    by (auto simp: ran_record_def start_record_def record_texts_def)
  from r have re: "error r \<in> set (None # ?prints)"
    by (auto simp: ran_record_def start_record_def)
  have sel: "exec_stdout ?result = universal_newlines out"
    "exec_stderr ?result = universal_newlines err"
    by simp_all
  from res hist ro rt re ex out sel show ?thesis
    by (intro exI[of _ x] exI[of _ r] exI[of _ g'] exI[of _ w'] exI[of _ ?result]
        exI[of _ "w\<lparr>subprocess_calls := subprocess_calls w
         @ [build_command si (path_of h (script_path si)) ?env ?verify]\<rparr>"]) simp
qed

theorem C8_witness:
  "\<not> already_hydrated (state (sample_grs sample_manifest default_state))
       (resolve_environment (config (sample_grs sample_manifest default_state)) None) False \<and>
   get_script_for_platform (manifest (sample_grs sample_manifest default_state))
     (detect_platform (platform_system disk_full_host)) = Some linux_script \<and>
   path_exists disk_full_host (path_of disk_full_host (script_path linux_script)) \<and>
   spawn disk_full_host
     (build_command linux_script (path_of disk_full_host (script_path linux_script))
        (resolve_environment (config (sample_grs sample_manifest default_state)) None)
        (resolve_verify (config (sample_grs sample_manifest default_state)) None))
     = Inr disk_full \<and>
   decode disk_full_host (raw_stdout disk_full) = Inr ''restoring'' \<and>
   decode disk_full_host (raw_stderr disk_full) = Inr ''disk full'' \<and>
   CR \<notin> set ''restoring'' \<and>
   (\<exists>x r g' w'.
      rehydrate disk_full_host None None False
        (sample_grs sample_manifest default_state, fresh_world) = (x, g', w') \<and>
      get_history_list (state g') = [r] \<and>
      record_output r = Some ''restoring'' \<and>
      record_texts r =
        [''2024-05-01T10:00:00+00:00'', ''development'', ''linux'', status r, ''restoring'']
        @ (case error r of None \<Rightarrow> [] | Some e \<Rightarrow> [e]) \<and>
      error r = None)"
proof -
  have a: "\<not> already_hydrated (state (sample_grs sample_manifest default_state))
       (resolve_environment (config (sample_grs sample_manifest default_state)) None) False"
    by (simp add: eval_defs)
  have b: "get_script_for_platform (manifest (sample_grs sample_manifest default_state))
     (detect_platform (platform_system disk_full_host)) = Some linux_script"
    by (simp add: eval_defs)
  have c: "path_exists disk_full_host (path_of disk_full_host (script_path linux_script))"
    by (simp add: eval_defs)
  have d: "spawn disk_full_host
     (build_command linux_script (path_of disk_full_host (script_path linux_script))
        (resolve_environment (config (sample_grs sample_manifest default_state)) None)
        (resolve_verify (config (sample_grs sample_manifest default_state)) None))
     = Inr disk_full"
    by (simp add: eval_defs)
  have e: "decode disk_full_host (raw_stdout disk_full) = Inr ''restoring''"
    by (simp add: eval_defs)
  have f: "decode disk_full_host (raw_stderr disk_full) = Inr ''disk full''"
    by (simp add: eval_defs)
  have k: "CR \<notin> set ''restoring''"
    by (simp add: CR_def)
  have v: "get_history_list (state (sample_grs sample_manifest default_state)) = []"
    "now_start disk_full_host = ''2024-05-01T10:00:00+00:00''"
    "resolve_environment (config (sample_grs sample_manifest default_state)) None
       = ''development''"
    "detect_platform (platform_system disk_full_host) = ''linux''"
    "universal_newlines ''restoring'' = ''restoring''"
    "print_raises disk_full_host = (\<lambda>t. None)"
    using universal_newlines_without_CR[OF k] by (simp_all add: eval_defs)
  from C8_decoded_stdout_recorded [OF a b c d e f, where w = fresh_world]
  obtain x r g' w' where
    "rehydrate disk_full_host None None False
        (sample_grs sample_manifest default_state, fresh_world) = (x, g', w')"
    "get_history_list (state g') = [r]"
    "record_output r = Some ''restoring''"
    "record_texts r =
        [''2024-05-01T10:00:00+00:00'', ''development'', ''linux'', status r, ''restoring'']
        @ (case error r of None \<Rightarrow> [] | Some e \<Rightarrow> [e])"
    "error r = None"
    using k unfolding v by auto
  with a b c d e f k show ?thesis by blast
qed

text \<open>
  Against claim C8 as stated: the script exits with code 1 after writing \<open>restoring\<close> and
  the line ending CR LF to its standard output and \<open>disk full\<close> to its standard error; the
  record appended to the history holds the first text with the line ending LF, and does
  not hold the second.
\<close>

theorem C8_counterexample:
  "spawn disk_full_crlf_host linux_command = Inr disk_full_crlf \<and>
   raw_stdout disk_full_crlf = ''restoring'' @ [CR, LF] \<and>
   raw_stderr disk_full_crlf = ''disk full'' \<and>
   subprocess_calls (snd (snd (rehydrate disk_full_crlf_host None None False
        (sample_grs sample_manifest default_state, fresh_world)))) = [linux_command] \<and>
   get_history_list (state (fst (snd (rehydrate disk_full_crlf_host None None False
        (sample_grs sample_manifest default_state, fresh_world)))))
     = [\<lparr>timestamp = ''2024-05-01T10:00:00+00:00'', environment = ''development'',
         platform = ''linux'', verify_integrity = True, status = ''failed'',
         returncode = Some 1, record_output = Some (''restoring'' @ [LF]), error = None\<rparr>] \<and>
   ''restoring'' @ [CR, LF] \<notin> set (record_texts
       \<lparr>timestamp = ''2024-05-01T10:00:00+00:00'', environment = ''development'',
         platform = ''linux'', verify_integrity = True, status = ''failed'',
         returncode = Some 1, record_output = Some (''restoring'' @ [LF]), error = None\<rparr>) \<and>
   ''disk full'' \<notin> set (record_texts
       \<lparr>timestamp = ''2024-05-01T10:00:00+00:00'', environment = ''development'',
         platform = ''linux'', verify_integrity = True, status = ''failed'',
         returncode = Some 1, record_output = Some (''restoring'' @ [LF]), error = None\<rparr>)"
  by (simp add: eval_defs record_texts_def)

subsection \<open>The platform resolver\<close>

text \<open>
  Claim C9, as amended. The platform resolver is a total function of the host's system
  name with no failure path: a name equal to \<open>windows\<close> once lowercased maps to \<open>windows\<close>,
  and every other name, \<open>linux\<close> and \<open>darwin\<close> among them, maps to \<open>linux\<close>.
\<close>

theorem C9_platform_by_equality:
  "detect_platform name = (if lower name = ''windows'' then ''windows'' else ''linux'') \<and>
   detect_platform ''linux'' = ''linux'' \<and> detect_platform ''darwin'' = ''linux''"
  by (simp add: detect_platform_def lower_def lower_char_def ascii_uppercase_def
      ascii_lowercase_def Let_def)

theorem C9_witness:
  "detect_platform ''Windows'' = ''windows'' \<and> detect_platform ''Darwin'' = ''linux'' \<and>
   detect_platform ''FreeBSD'' = ''linux''"
  using C9_platform_by_equality [of "''Windows''"] C9_platform_by_equality [of "''Darwin''"]
    C9_platform_by_equality [of "''FreeBSD''"]
  by (simp add: lower_def lower_char_def ascii_uppercase_def ascii_lowercase_def)

text \<open>
  Against claim C9 as stated: the name \<open>windows nt\<close> contains \<open>windows\<close> and is mapped to
  \<open>linux\<close>.
\<close>

theorem C9_counterexample:
  "sublist ''windows'' ''windows nt'' \<and> detect_platform ''windows nt'' = ''linux''"
  by (simp add: detect_platform_def lower_def lower_char_def ascii_uppercase_def
      ascii_lowercase_def Let_def)

subsection \<open>Negative limits\<close>

text \<open>
  Claim C10. For every \<open>k > 0\<close> and every history, \<open>get_history(limit=-k)\<close> returns the
  history without its first \<open>min(k, length)\<close> records: the oldest records are dropped and
  all newer ones are returned.
\<close>

theorem C10_negative_limit_drops_oldest:
  "0 < k \<Longrightarrow>
   get_history g (Some (- k))
     = drop (min (nat k) (length (get_history_list (state g)))) (get_history_list (state g))"
  by (simp add: get_history_def Let_def slice_from_pos min_def)

theorem C10_witness:
  "(0::int) < 3 \<and>
   get_history (sample_grs sample_manifest
       (default_state\<lparr>rehydration_history := Some eleven_records\<rparr>)) (Some (- 3))
     = map (\<lambda>ts. sample_record ts ''failed'')
         [''t04'', ''t05'', ''t06'', ''t07'', ''t08'', ''t09'', ''t10'', ''t11'']"
proof -
  have a: "(0::int) < 3" by simp
  have b: "get_history_list (state (sample_grs sample_manifest
       (default_state\<lparr>rehydration_history := Some eleven_records\<rparr>))) = eleven_records"
    by (simp add: sample_grs_def get_history_list_def)
  show ?thesis
    using C10_negative_limit_drops_oldest [OF a, of "sample_grs sample_manifest
       (default_state\<lparr>rehydration_history := Some eleven_records\<rparr>)"]
    unfolding b by (simp add: eleven_records_def)
qed

end
